theory Spec2Isabelle
  imports Complex_Main
begin

section \<open>Data model\<close>

text \<open>
  The optimizer of \<^verbatim>\<open>qosf_task3.py\<close> works on a Qiskit circuit. The parts of the
  circuit that the code reads and writes are:
  \<^item> \<^verbatim>\<open>circuit.num_qubits\<close>, \<^verbatim>\<open>circuit.num_clbits\<close>;
  \<^item> \<^verbatim>\<open>circuit.data\<close>, a Python list whose entry \<^verbatim>\<open>item\<close> holds the gate
    \<^verbatim>\<open>item[0]\<close> with its \<^verbatim>\<open>name\<close> (a string) and \<^verbatim>\<open>params\<close> (a list of
    floats), and the qubits \<^verbatim>\<open>item[1]\<close>, each with an \<^verbatim>\<open>index\<close>.
  An entry of \<^verbatim>\<open>circuit.data\<close> is the record \<open>instr\<close>; \<open>qargs\<close> is the list
  \<^verbatim>\<open>[q.index for q in item[1]]\<close>. Instructions are values: no two entries share a
  gate object.

  Angles are Python floats, that is IEEE binary64 numbers. A finite float is modelled by
  the real number it denotes, \<open>Some x\<close>; \<open>None\<close> stands for a float that is not
  finite (an infinity or a NaN). The two zeros are one value, and the non-finite floats
  are one value: the program only adds floats, compares a parameter list with the
  finite constants \<^verbatim>\<open>[0.0]\<close> and \<^verbatim>\<open>[2*PI]\<close>, and compares a rounded sum with a
  rounded finite constant, and none of these tells the merged values apart.
\<close>

type_synonym pyfloat = "real option"

datatype py_error = IndexError | ValueError | QiskitError

record instr =
  name :: string
  params :: "pyfloat list"
  qargs :: "nat list"

record circuit =
  num_qubits :: nat
  num_clbits :: nat
  data :: "instr list"

text \<open>
  \<^verbatim>\<open>math.pi\<close> is the double \<open>0x400921FB54442D18\<close>, that is \<open>884279719003555 / 2^48\<close>.
  Doubling a double is exact, so \<^verbatim>\<open>2*PI\<close> is the real \<open>2 * PI\<close>.
\<close>

definition PI :: real where
  "PI = 884279719003555 / 281474976710656"

subsection \<open>Python lists\<close>

text \<open>
  Indexing a list of length \<open>n\<close> with \<open>i\<close> accepts \<open>-n \<le> i < n\<close>; a negative index
  counts from the end; anything else raises \<^verbatim>\<open>IndexError\<close>.
\<close>

definition py_index :: "'a list \<Rightarrow> int \<Rightarrow> nat option" where
  "py_index xs i =
     (let n = int (length xs)
      in if 0 \<le> i \<and> i < n then Some (nat i)
         else if - n \<le> i \<and> i < 0 then Some (nat (n + i))
         else None)"

definition py_get :: "'a list \<Rightarrow> int \<Rightarrow> py_error + 'a" where
  "py_get xs i = (case py_index xs i of None \<Rightarrow> Inl IndexError | Some k \<Rightarrow> Inr (xs ! k))"

text \<open>\<^verbatim>\<open>xs.pop(i)\<close> and \<^verbatim>\<open>del xs[i]\<close>: the list without its element at \<open>i\<close>.\<close>

definition py_pop :: "'a list \<Rightarrow> int \<Rightarrow> py_error + 'a list" where
  "py_pop xs i =
     (case py_index xs i of None \<Rightarrow> Inl IndexError | Some k \<Rightarrow> Inr (take k xs @ drop (Suc k) xs))"

text \<open>\<^verbatim>\<open>xs[i] = v\<close>.\<close>

definition py_set :: "'a list \<Rightarrow> int \<Rightarrow> 'a \<Rightarrow> py_error + 'a list" where
  "py_set xs i v = (case py_index xs i of None \<Rightarrow> Inl IndexError | Some k \<Rightarrow> Inr (xs[k := v]))"

section \<open>Identity-Rotation Elimination\<close>

text \<open>
  \<^verbatim>\<open>
  def removeZeroRotations(circuit):
      n=len(circuit.data)
      i=0
      while i<n:
          angle=circuit.data[i][0].params
          if angle==[0.0] or angle==[2*PI]:
              circuit.data.pop(i)
              i=i-1
              n=n-1
          i=i+1
      return circuit
  \<close>
  The loop is the function \<open>rzr_loop\<close> on the state \<open>(data, i, n)\<close> at the loop head.
\<close>

function rzr_loop :: "instr list \<Rightarrow> int \<Rightarrow> int \<Rightarrow> py_error + instr list" where
  "rzr_loop d i n =
     (if i < n then
        (case py_get d i of
           Inl e \<Rightarrow> Inl e
         | Inr it \<Rightarrow>
             if params it = [Some 0] \<or> params it = [Some (2 * PI)] then
               (case py_pop d i of
                  Inl e \<Rightarrow> Inl e
                | Inr d' \<Rightarrow> rzr_loop d' (i - 1 + 1) (n - 1))
             else rzr_loop d (i + 1) n)
      else Inr d)"
  by pat_completeness auto
termination
  by (relation "measure (\<lambda>(d, i, n). nat (n - i))") auto

definition removeZeroRotations :: "circuit \<Rightarrow> py_error + circuit" where
  "removeZeroRotations c =
     (case rzr_loop (data c) 0 (int (length (data c))) of
        Inl e \<Rightarrow> Inl e
      | Inr d \<Rightarrow> Inr (c\<lparr>data := d\<rparr>))"


section \<open>Wire tags: \<^verbatim>\<open>str\<close>, \<^verbatim>\<open>int\<close>, slices\<close>

text \<open>
  A Wire History entry is the Python string \<^verbatim>\<open>name+str(i)\<close>. The passes read its
  gate kind as the slice \<^verbatim>\<open>tag[:2]\<close> (\<open>take 2\<close>) and its index as
  \<^verbatim>\<open>int(tag[2:])\<close> (\<open>py_int (drop 2 tag)\<close>). Strings are ASCII.
\<close>

definition digit_char :: "nat \<Rightarrow> char" where
  "digit_char k = ''0123456789'' ! k"

function str_nat :: "nat \<Rightarrow> string" where
  "str_nat k = (if k < 10 then [digit_char k] else str_nat (k div 10) @ [digit_char (k mod 10)])"
  by pat_completeness auto
termination
  by (relation "measure (\<lambda>k. k)") auto

definition py_str :: "int \<Rightarrow> string" where
  "py_str i = (if i < 0 then CHR ''-'' # str_nat (nat (- i)) else str_nat (nat i))"

definition digit_val :: "char \<Rightarrow> nat option" where
  "digit_val c = map_of (zip ''0123456789'' [0, 1, 2, 3, 4, 5, 6, 7, 8, 9]) c"

text \<open>
  \<^verbatim>\<open>int(s)\<close> in base 10: optional surrounding whitespace, an optional sign, then
  digits, where a single underscore may stand between two digits. Anything else raises
  \<^verbatim>\<open>ValueError\<close>.
\<close>

fun more_digits :: "nat \<Rightarrow> string \<Rightarrow> nat option" where
  "more_digits acc [] = Some acc"
| "more_digits acc (c # cs) =
     (if c = CHR ''_'' then
        (case cs of
           [] \<Rightarrow> None
         | c' # cs' \<Rightarrow>
             (case digit_val c' of None \<Rightarrow> None | Some v \<Rightarrow> more_digits (10 * acc + v) cs'))
      else (case digit_val c of None \<Rightarrow> None | Some v \<Rightarrow> more_digits (10 * acc + v) cs))"

definition nat_literal :: "string \<Rightarrow> nat option" where
  "nat_literal s =
     (case s of
        [] \<Rightarrow> None
      | c # cs \<Rightarrow> (case digit_val c of None \<Rightarrow> None | Some v \<Rightarrow> more_digits v cs))"

definition py_isspace :: "char \<Rightarrow> bool" where
  "py_isspace c =
     (c = CHR '' '' \<or> c = CHR 0x09 \<or> c = CHR 0x0A \<or> c = CHR 0x0B \<or> c = CHR 0x0C \<or> c = CHR 0x0D
      \<or> c = CHR 0x1C \<or> c = CHR 0x1D \<or> c = CHR 0x1E \<or> c = CHR 0x1F)"

definition py_strip :: "string \<Rightarrow> string" where
  "py_strip s = dropWhile py_isspace (rev (dropWhile py_isspace (rev s)))"

definition py_int :: "string \<Rightarrow> py_error + int" where
  "py_int s =
     (case py_strip s of
        [] \<Rightarrow> Inl ValueError
      | c # cs \<Rightarrow>
          if c = CHR ''-'' then
            (case nat_literal cs of None \<Rightarrow> Inl ValueError | Some k \<Rightarrow> Inr (- int k))
          else if c = CHR ''+'' then
            (case nat_literal cs of None \<Rightarrow> Inl ValueError | Some k \<Rightarrow> Inr (int k))
          else
            (case nat_literal (c # cs) of None \<Rightarrow> Inl ValueError | Some k \<Rightarrow> Inr (int k)))"

section \<open>Adjacent-Cancellation pass\<close>

text \<open>
  \<^verbatim>\<open>wires\<close> is a list with one stack (a list of tags) per qubit. The three
  operations the pass performs on it: \<^verbatim>\<open>wires[q][-1]\<close>, \<^verbatim>\<open>wires[q].append(t)\<close>
  and \<^verbatim>\<open>wires[q].pop()\<close>.
\<close>

definition wire_top :: "string list list \<Rightarrow> nat \<Rightarrow> py_error + string" where
  "wire_top ws q = (case py_get ws (int q) of Inl e \<Rightarrow> Inl e | Inr w \<Rightarrow> py_get w (- 1))"

definition wire_append :: "string list list \<Rightarrow> nat \<Rightarrow> string \<Rightarrow> py_error + string list list" where
  "wire_append ws q t =
     (case py_get ws (int q) of Inl e \<Rightarrow> Inl e | Inr w \<Rightarrow> py_set ws (int q) (w @ [t]))"

definition wire_pop :: "string list list \<Rightarrow> nat \<Rightarrow> py_error + string list list" where
  "wire_pop ws q =
     (case py_get ws (int q) of
        Inl e \<Rightarrow> Inl e
      | Inr w \<Rightarrow> (case py_pop w (- 1) of Inl e \<Rightarrow> Inl e | Inr w' \<Rightarrow> py_set ws (int q) w'))"

text \<open>
  \<^verbatim>\<open>
  def removeDoubleCZ(circuit):
      wires=[[""] for i in range(circuit.num_qubits)]
      n=len(circuit.data)
      i=0
      while i<n:
          if circuit.data[i][0].name=="cz":
              qubit1=circuit.data[i][1][0].index
              qubit2=circuit.data[i][1][1].index
              if wires[qubit1][-1][:2]=="cz" and wires[qubit2][-1][:2]=="cz":
                  circuit.data.pop(i)
                  circuit.data.pop(int(wires[qubit1][-1][2:]))
                  wires[qubit1].pop()
                  wires[qubit2].pop()
                  i=i-2
                  n=n-2
              else:
                  wires[qubit1].append("cz"+str(i))
                  wires[qubit2].append("cz"+str(i))
          else:
              qubit=circuit.data[i][1][0].index
              wires[qubit].append(circuit.data[i][0].name+str(i))
          i=i+1
      return circuit,wires
  \<close>
  \<open>rdc_cancel\<close> and \<open>rdc_push_cz\<close> are the two branches of the inner \<^verbatim>\<open>if\<close>,
  \<open>rdc_step\<close> is one run of the loop body (up to and including \<^verbatim>\<open>i=i+1\<close>), and
  \<open>rdc_loop\<close> is the loop on the state \<open>(data, wires, i, n)\<close>.
\<close>

type_synonym rdc_state = "instr list \<times> string list list \<times> int \<times> int"

definition rdc_cancel :: "instr list \<Rightarrow> string list list \<Rightarrow> int \<Rightarrow> int \<Rightarrow> nat \<Rightarrow> nat
    \<Rightarrow> py_error + rdc_state" where
  "rdc_cancel d ws i n qubit1 qubit2 =
     (case py_pop d i of Inl e \<Rightarrow> Inl e | Inr d1 \<Rightarrow>
     (case wire_top ws qubit1 of Inl e \<Rightarrow> Inl e | Inr top1 \<Rightarrow>
     (case py_int (drop 2 top1) of Inl e \<Rightarrow> Inl e | Inr k \<Rightarrow>
     (case py_pop d1 k of Inl e \<Rightarrow> Inl e | Inr d2 \<Rightarrow>
     (case wire_pop ws qubit1 of Inl e \<Rightarrow> Inl e | Inr ws1 \<Rightarrow>
     (case wire_pop ws1 qubit2 of Inl e \<Rightarrow> Inl e | Inr ws2 \<Rightarrow>
        Inr (d2, ws2, i - 2 + 1, n - 2)))))))"

definition rdc_push_cz :: "instr list \<Rightarrow> string list list \<Rightarrow> int \<Rightarrow> int \<Rightarrow> nat \<Rightarrow> nat
    \<Rightarrow> py_error + rdc_state" where
  "rdc_push_cz d ws i n qubit1 qubit2 =
     (case wire_append ws qubit1 (''cz'' @ py_str i) of Inl e \<Rightarrow> Inl e | Inr ws1 \<Rightarrow>
     (case wire_append ws1 qubit2 (''cz'' @ py_str i) of Inl e \<Rightarrow> Inl e | Inr ws2 \<Rightarrow>
        Inr (d, ws2, i + 1, n)))"

definition rdc_step :: "instr list \<Rightarrow> string list list \<Rightarrow> int \<Rightarrow> int \<Rightarrow> py_error + rdc_state" where
  "rdc_step d ws i n =
     (case py_get d i of Inl e \<Rightarrow> Inl e | Inr it \<Rightarrow>
        if name it = ''cz'' then
          (case py_get (qargs it) 0 of Inl e \<Rightarrow> Inl e | Inr qubit1 \<Rightarrow>
          (case py_get (qargs it) 1 of Inl e \<Rightarrow> Inl e | Inr qubit2 \<Rightarrow>
          (case wire_top ws qubit1 of Inl e \<Rightarrow> Inl e | Inr top1 \<Rightarrow>
             if take 2 top1 = ''cz'' then
               (case wire_top ws qubit2 of Inl e \<Rightarrow> Inl e | Inr top2 \<Rightarrow>
                  if take 2 top2 = ''cz'' then rdc_cancel d ws i n qubit1 qubit2
                  else rdc_push_cz d ws i n qubit1 qubit2)
             else rdc_push_cz d ws i n qubit1 qubit2)))
        else
          (case py_get (qargs it) 0 of Inl e \<Rightarrow> Inl e | Inr qubit \<Rightarrow>
          (case wire_append ws qubit (name it @ py_str i) of Inl e \<Rightarrow> Inl e | Inr ws' \<Rightarrow>
             Inr (d, ws', i + 1, n))))"

function rdc_loop :: "instr list \<Rightarrow> string list list \<Rightarrow> int \<Rightarrow> int
    \<Rightarrow> py_error + (instr list \<times> string list list)" where
  "rdc_loop d ws i n =
     (if i < n then
        (case rdc_step d ws i n of
           Inl e \<Rightarrow> Inl e
         | Inr (d', ws', i', n') \<Rightarrow> rdc_loop d' ws' i' n')
      else Inr (d, ws))"
  by pat_completeness auto
termination
  by (relation "measure (\<lambda>(d, ws, i, n). nat (n - i))")
    (auto simp: rdc_step_def rdc_cancel_def rdc_push_cz_def split: sum.splits if_splits)

definition removeDoubleCZ :: "circuit \<Rightarrow> py_error + (circuit \<times> string list list)" where
  "removeDoubleCZ c =
     (case rdc_loop (data c) (replicate (num_qubits c) ['''']) 0 (int (length (data c))) of
        Inl e \<Rightarrow> Inl e
      | Inr (d, ws) \<Rightarrow> Inr (c\<lparr>data := d\<rparr>, ws))"

section \<open>Float arithmetic\<close>

text \<open>Rounding a real to the nearest integer, ties to the even one.\<close>

definition round_half_even :: "real \<Rightarrow> int" where
  "round_half_even y =
     (if y - of_int \<lfloor>y\<rfloor> < 1 / 2 then \<lfloor>y\<rfloor>
      else if 1 / 2 < y - of_int \<lfloor>y\<rfloor> then \<lfloor>y\<rfloor> + 1
      else if even \<lfloor>y\<rfloor> then \<lfloor>y\<rfloor>
      else \<lfloor>y\<rfloor> + 1)"

text \<open>
  \<open>bit_length n\<close> is the number of binary digits of \<open>n\<close>, and \<open>binary_exponent a\<close>,
  for \<open>a > 0\<close>, the integer \<open>e\<close> with \<open>2^e \<le> a < 2^(e+1)\<close>.
\<close>

fun bit_length :: "nat \<Rightarrow> nat" where
  "bit_length n = (if n = 0 then 0 else Suc (bit_length (n div 2)))"

definition binary_exponent :: "real \<Rightarrow> int" where
  "binary_exponent a =
     (if 1 \<le> a then int (bit_length (nat \<lfloor>a\<rfloor>)) - 1
      else - int (bit_length (nat \<lceil>1 / a\<rceil> - 1)))"

definition pow2 :: "int \<Rightarrow> real" where
  "pow2 k = (if 0 \<le> k then 2 ^ nat k else 1 / 2 ^ nat (- k))"

text \<open>
  The binary64 float nearest to a real \<open>x\<close>, ties to the even significand: the
  significand has 53 bits, the exponent of a normal number is at least \<open>-1022\<close>
  (below, the spacing stays \<open>2^-1074\<close>), and a result of magnitude \<open>2^1024\<close> or more
  is an infinity.
\<close>

definition round_double :: "real \<Rightarrow> pyfloat" where
  "round_double x =
     (if x = 0 then Some 0
      else
        (let e = max (binary_exponent \<bar>x\<bar>) (- 1022);
             ulp = pow2 (e - 52);
             m = round_half_even (\<bar>x\<bar> / ulp)
         in if pow2 1024 \<le> of_int m * ulp then None
            else Some (sgn x * of_int m * ulp)))"

text \<open>
  \<^verbatim>\<open>a+b\<close> on floats: the exact sum, rounded. A sum with a non-finite operand is not
  finite.
\<close>

definition double_add :: "pyfloat \<Rightarrow> pyfloat \<Rightarrow> pyfloat" where
  "double_add a b =
     (case a of
        None \<Rightarrow> None
      | Some x \<Rightarrow> (case b of None \<Rightarrow> None | Some y \<Rightarrow> round_double (x + y)))"

text \<open>
  \<^verbatim>\<open>round(x, 2)\<close> rounds a finite float to the nearest multiple of \<open>1/100\<close>, ties to
  even, and returns the float nearest to it; \<open>py_round2 x\<close> is that multiple counted in
  hundredths, so two finite floats have the same \<^verbatim>\<open>round(_, 2)\<close> exactly when their
  \<open>py_round2\<close> agree. A non-finite float rounds to itself.
  \<open>rounds_to_full_turn s\<close> is the test \<^verbatim>\<open>round(s,2)==round(2*PI,2)\<close>.
\<close>

definition py_round2 :: "real \<Rightarrow> int" where
  "py_round2 x = round_half_even (x * 100)"

definition rounds_to_full_turn :: "pyfloat \<Rightarrow> bool" where
  "rounds_to_full_turn s =
     (case s of None \<Rightarrow> False | Some x \<Rightarrow> py_round2 x = py_round2 (2 * PI))"

section \<open>Rotation-Fusion pass\<close>

text \<open>\<^verbatim>\<open>circuit.data[index][0].params[0]=Sum\<close>.\<close>

definition set_angle :: "instr list \<Rightarrow> int \<Rightarrow> pyfloat \<Rightarrow> py_error + instr list" where
  "set_angle d index s =
     (case py_get d index of Inl e \<Rightarrow> Inl e | Inr it \<Rightarrow>
     (case py_set (params it) 0 s of Inl e \<Rightarrow> Inl e | Inr ps \<Rightarrow>
        py_set d index (it\<lparr>params := ps\<rparr>)))"

text \<open>
  \<^verbatim>\<open>
  def combineRotations(circuit,wires):
      indicesToPop=[]
      for j in range(len(wires)):
          i=0
          n=len(wires[j])
          while i<n-1:
              if wires[j][i][:2]==wires[j][i+1][:2]:
                  index1=int(wires[j][i][2:])
                  index2=int(wires[j][i+1][2:])
                  angle1=circuit.data[index1][0].params[0]
                  angle2=circuit.data[index2][0].params[0]
                  Sum=angle1+angle2
                  circuit.data[index2][0].params[0]=Sum
                  indicesToPop.append(index1)
                  del wires[j][i]
                  n=n-1
                  i=i-1
                  if round(Sum,2)==round(2*PI,2):
                      indicesToPop.append(index2)
                      del wires[j][i+1]
                      n=n-1
                      i=i-2
              i=i+1
      indicesToPop=sorted(indicesToPop, reverse=True)
      [circuit.data.pop(i) for i in indicesToPop]
      return circuit
  \<close>
  The inner loop touches one wire \<open>w = wires[j]\<close> only. \<open>cr_fuse\<close> is the body of the
  \<^verbatim>\<open>if\<close> from \<^verbatim>\<open>Sum=angle1+angle2\<close> on (its \<open>Sum'\<close>), \<open>cr_step\<close> one run of the loop body,
  \<open>cr_loop\<close> the \<^verbatim>\<open>while\<close> loop on the state \<open>(data, w, indicesToPop, i, n)\<close>,
  \<open>cr_wires\<close> the \<^verbatim>\<open>for\<close> loop over the wires, and \<open>pop_all\<close> the final list of
  \<^verbatim>\<open>pop\<close>s.
\<close>

type_synonym cr_state = "instr list \<times> string list \<times> int list \<times> int \<times> int"

definition cr_fuse :: "instr list \<Rightarrow> string list \<Rightarrow> int list \<Rightarrow> int \<Rightarrow> int \<Rightarrow> int \<Rightarrow> int \<Rightarrow> pyfloat
    \<Rightarrow> py_error + cr_state" where
  "cr_fuse d w pops i n index1 index2 Sum' =
     (case set_angle d index2 Sum' of Inl e \<Rightarrow> Inl e | Inr d' \<Rightarrow>
     (case py_pop w i of Inl e \<Rightarrow> Inl e | Inr w1 \<Rightarrow>
        if rounds_to_full_turn Sum' then
          (case py_pop w1 (i - 1 + 1) of Inl e \<Rightarrow> Inl e | Inr w2 \<Rightarrow>
             Inr (d', w2, pops @ [index1] @ [index2], i - 1 - 2 + 1, n - 1 - 1))
        else Inr (d', w1, pops @ [index1], i - 1 + 1, n - 1)))"

definition cr_step :: "instr list \<Rightarrow> string list \<Rightarrow> int list \<Rightarrow> int \<Rightarrow> int \<Rightarrow> py_error + cr_state" where
  "cr_step d w pops i n =
     (case py_get w i of Inl e \<Rightarrow> Inl e | Inr t1 \<Rightarrow>
     (case py_get w (i + 1) of Inl e \<Rightarrow> Inl e | Inr t2 \<Rightarrow>
        if take 2 t1 = take 2 t2 then
          (case py_int (drop 2 t1) of Inl e \<Rightarrow> Inl e | Inr index1 \<Rightarrow>
          (case py_int (drop 2 t2) of Inl e \<Rightarrow> Inl e | Inr index2 \<Rightarrow>
          (case py_get d index1 of Inl e \<Rightarrow> Inl e | Inr it1 \<Rightarrow>
          (case py_get (params it1) 0 of Inl e \<Rightarrow> Inl e | Inr angle1 \<Rightarrow>
          (case py_get d index2 of Inl e \<Rightarrow> Inl e | Inr it2 \<Rightarrow>
          (case py_get (params it2) 0 of Inl e \<Rightarrow> Inl e | Inr angle2 \<Rightarrow>
             cr_fuse d w pops i n index1 index2 (double_add angle1 angle2)))))))
        else Inr (d, w, pops, i + 1, n)))"

function cr_loop :: "instr list \<Rightarrow> string list \<Rightarrow> int list \<Rightarrow> int \<Rightarrow> int
    \<Rightarrow> py_error + (instr list \<times> string list \<times> int list)" where
  "cr_loop d w pops i n =
     (if i < n - 1 then
        (case cr_step d w pops i n of
           Inl e \<Rightarrow> Inl e
         | Inr (d', w', pops', i', n') \<Rightarrow> cr_loop d' w' pops' i' n')
      else Inr (d, w, pops))"
  by pat_completeness auto
termination
  by (relation "measures [\<lambda>(d, w, pops, i, n). length w, \<lambda>(d, w, pops, i, n). nat (n - i)]")
    (auto simp: cr_step_def cr_fuse_def py_pop_def py_index_def Let_def
          split: sum.splits if_splits option.splits)

fun cr_wires :: "instr list \<Rightarrow> string list list \<Rightarrow> int list \<Rightarrow> py_error + (instr list \<times> int list)" where
  "cr_wires d [] pops = Inr (d, pops)"
| "cr_wires d (w # ws) pops =
     (case cr_loop d w pops 0 (int (length w)) of
        Inl e \<Rightarrow> Inl e
      | Inr (d', w', pops') \<Rightarrow> cr_wires d' ws pops')"

fun pop_all :: "instr list \<Rightarrow> int list \<Rightarrow> py_error + instr list" where
  "pop_all d [] = Inr d"
| "pop_all d (k # ks) = (case py_pop d k of Inl e \<Rightarrow> Inl e | Inr d' \<Rightarrow> pop_all d' ks)"

definition combineRotations :: "circuit \<Rightarrow> string list list \<Rightarrow> py_error + circuit" where
  "combineRotations c wires =
     (case cr_wires (data c) wires [] of Inl e \<Rightarrow> Inl e | Inr (d, pops) \<Rightarrow>
     (case pop_all d (rev (sort pops)) of Inl e \<Rightarrow> Inl e | Inr d' \<Rightarrow>
        Inr (c\<lparr>data := d'\<rparr>)))"

section \<open>Optimizer driver\<close>

text \<open>
  \<^verbatim>\<open>
  def simplify(circuit):
      circuit=removeZeroRotations(circuit)
      circuit,wires=removeDoubleCZ(circuit)
      circuit=combineRotations(circuit,wires)
      return circuit
  \<close>
\<close>

definition simplify :: "circuit \<Rightarrow> py_error + circuit" where
  "simplify c =
     (case removeZeroRotations c of Inl e \<Rightarrow> Inl e | Inr c1 \<Rightarrow>
     (case removeDoubleCZ c1 of Inl e \<Rightarrow> Inl e | Inr (c2, wires) \<Rightarrow>
        combineRotations c2 wires))"

section \<open>Basis Lowering\<close>

text \<open>
  The two decomposers call Qiskit's \<^verbatim>\<open>OneQubitEulerDecomposer\<close> and
  \<^verbatim>\<open>TwoQubitBasisDecomposer\<close>, which are not part of this repository. They are the
  parameters \<open>oneQubitDecomppser\<close> and \<open>twoQubitDecomppser\<close> of the model: each maps a
  gate (its name and parameters) to the \<^verbatim>\<open>data\<close> of the decomposition circuit, or
  fails.
  \<^verbatim>\<open>
  def compiler(circuit):
      decomposedCircuit = QuantumCircuit(circuit.num_qubits)
      if circuit.num_clbits >0:
          decomposedCircuit.add_register(ClassicalRegister(circuit.num_clbits))
      for item in circuit.data:
          gate=item[0]
          numOfQubits=len(item[1])
          positions=[qubit.index for qubit in item[1]]
          if numOfQubits==1:
              decomposition=oneQubitDecomppser(gate)
              gates=[item[0] for item in decomposition.data]
              [decomposedCircuit.append(gate,positions) for gate in gates]
          elif numOfQubits==2:
              decomposition=twoQubitDecomppser(gate)
              for item in decomposition.data:
                  gate=item[0]
                  if len(item[1])==2:
                      decomposedCircuit.append(gate,positions)
                  else:
                      decomposedCircuit.append(gate,[positions[item[1][0].index]])
      return decomposedCircuit
  \<close>
  \<open>place2\<close> is the body of the inner \<^verbatim>\<open>for\<close> loop, \<open>lower_item\<close> the body of the
  outer one (the instructions it appends), \<open>compile_items\<close> the outer loop.
\<close>

type_synonym decomposer = "string \<Rightarrow> pyfloat list \<Rightarrow> py_error + instr list"

definition place2 :: "nat list \<Rightarrow> instr \<Rightarrow> py_error + instr" where
  "place2 positions g =
     (if length (qargs g) = 2 then Inr (g\<lparr>qargs := positions\<rparr>)
      else
        (case py_get (qargs g) 0 of Inl e \<Rightarrow> Inl e | Inr k \<Rightarrow>
        (case py_get positions (int k) of Inl e \<Rightarrow> Inl e | Inr p \<Rightarrow>
           Inr (g\<lparr>qargs := [p]\<rparr>))))"

fun place2_all :: "nat list \<Rightarrow> instr list \<Rightarrow> py_error + instr list" where
  "place2_all positions [] = Inr []"
| "place2_all positions (g # gs) =
     (case place2 positions g of Inl e \<Rightarrow> Inl e | Inr g' \<Rightarrow>
     (case place2_all positions gs of Inl e \<Rightarrow> Inl e | Inr gs' \<Rightarrow> Inr (g' # gs')))"

definition lower_item :: "decomposer \<Rightarrow> decomposer \<Rightarrow> instr \<Rightarrow> py_error + instr list" where
  "lower_item oneQubitDecomppser twoQubitDecomppser item =
     (if length (qargs item) = 1 then
        (case oneQubitDecomppser (name item) (params item) of
           Inl e \<Rightarrow> Inl e
         | Inr gates \<Rightarrow> Inr (map (\<lambda>g. g\<lparr>qargs := qargs item\<rparr>) gates))
      else if length (qargs item) = 2 then
        (case twoQubitDecomppser (name item) (params item) of
           Inl e \<Rightarrow> Inl e
         | Inr dec \<Rightarrow> place2_all (qargs item) dec)
      else Inr [])"

fun compile_items :: "decomposer \<Rightarrow> decomposer \<Rightarrow> instr list \<Rightarrow> instr list \<Rightarrow> py_error + instr list" where
  "compile_items d1 d2 out [] = Inr out"
| "compile_items d1 d2 out (item # items) =
     (case lower_item d1 d2 item of
        Inl e \<Rightarrow> Inl e
      | Inr new \<Rightarrow> compile_items d1 d2 (out @ new) items)"

definition compiler :: "decomposer \<Rightarrow> decomposer \<Rightarrow> circuit \<Rightarrow> py_error + circuit" where
  "compiler d1 d2 c =
     (case compile_items d1 d2 [] (data c) of
        Inl e \<Rightarrow> Inl e
      | Inr out \<Rightarrow> Inr \<lparr>num_qubits = num_qubits c, num_clbits = num_clbits c, data = out\<rparr>)"

section \<open>Instructions of the basis\<close>

text \<open>
  The instructions Qiskit builds for \<^verbatim>\<open>qc.cz(a,b)\<close>, \<^verbatim>\<open>qc.rx(t,q)\<close> and
  \<^verbatim>\<open>qc.rz(t,q)\<close>: the gate names are \<^verbatim>\<open>"cz"\<close>, \<^verbatim>\<open>"rx"\<close>, \<^verbatim>\<open>"rz"\<close>; a
  \<^verbatim>\<open>CZGate\<close> has no parameter, a rotation has its angle, a finite float, as only
  parameter.
\<close>

definition cz :: "nat \<Rightarrow> nat \<Rightarrow> instr" where
  "cz a b = \<lparr>name = ''cz'', params = [], qargs = [a, b]\<rparr>"

definition rx :: "real \<Rightarrow> nat \<Rightarrow> instr" where
  "rx t q = \<lparr>name = ''rx'', params = [Some t], qargs = [q]\<rparr>"

definition rz :: "real \<Rightarrow> nat \<Rightarrow> instr" where
  "rz t q = \<lparr>name = ''rz'', params = [Some t], qargs = [q]\<rparr>"

definition circ :: "nat \<Rightarrow> instr list \<Rightarrow> circuit" where
  "circ nq d = \<lparr>num_qubits = nq, num_clbits = 0, data = d\<rparr>"

text \<open>A single-qubit gate with one finite angle and the gate name \<open>k\<close>.\<close>

definition rot :: "string \<Rightarrow> real \<Rightarrow> nat \<Rightarrow> instr" where
  "rot k t q = \<lparr>name = k, params = [Some t], qargs = [q]\<rparr>"

section \<open>Python list operations at indices in range\<close>

declare rzr_loop.simps [simp del]
declare rdc_loop.simps [simp del]
declare cr_loop.simps [simp del]
declare str_nat.simps [simp del]
declare bit_length.simps [simp del]

lemma py_get_nat: "k < length xs \<Longrightarrow> py_get xs (int k) = Inr (xs ! k)"
  by (simp add: py_get_def py_index_def)

lemma py_set_nat: "k < length xs \<Longrightarrow> py_set xs (int k) v = Inr (xs[k := v])"
  by (simp add: py_set_def py_index_def)

lemma py_pop_nat: "k < length xs \<Longrightarrow> py_pop xs (int k) = Inr (take k xs @ drop (Suc k) xs)"
  by (simp add: py_pop_def py_index_def)

lemma py_pop_length: "py_pop xs i = Inr ys \<Longrightarrow> Suc (length ys) = length xs"
  by (auto simp: py_pop_def py_index_def Let_def split: if_splits)

lemma py_set_length: "py_set xs i v = Inr ys \<Longrightarrow> length ys = length xs"
  by (auto simp: py_set_def py_index_def Let_def split: if_splits)

section \<open>Identity-Rotation Elimination is a filter\<close>

text \<open>
  The loop invariant: at the loop head, with \<open>i = k\<close> and \<open>n = len(data)\<close>, the
  instructions before \<open>k\<close> are final and the loop returns them followed by the kept
  instructions of the rest.
\<close>

lemma rzr_loop_filter:
  "k \<le> length d \<Longrightarrow> i = int k \<Longrightarrow> n = int (length d) \<Longrightarrow>
   rzr_loop d i n =
     Inr (take k d @ filter (\<lambda>it. params it \<noteq> [Some 0] \<and> params it \<noteq> [Some (2 * PI)]) (drop k d))"
proof (induction d i n arbitrary: k rule: rzr_loop.induct)
  case (1 d i n)
  show ?case
  proof (cases "k < length d")
    case False
    with 1(3-5) show ?thesis by (simp add: rzr_loop.simps)
  next
    case True
    then have lt: "i < n" using 1(4,5) by simp
    have get: "py_get d i = Inr (d ! k)" using True 1(4) by (simp add: py_get_nat)
    have dr: "drop k d = d ! k # drop (Suc k) d" using True by (simp add: Cons_nth_drop_Suc)
    show ?thesis
    proof (cases "params (d ! k) = [Some 0] \<or> params (d ! k) = [Some (2 * PI)]")
      case rem: True
      let ?d' = "take k d @ drop (Suc k) d"
      have pop: "py_pop d i = Inr ?d'" using True 1(4) by (simp add: py_pop_nat)
      have "rzr_loop ?d' (i - 1 + 1) (n - 1) =
          Inr (take k ?d' @ filter (\<lambda>it. params it \<noteq> [Some 0] \<and> params it \<noteq> [Some (2 * PI)]) (drop k ?d'))"
        using True 1(4,5) by (intro 1(1)[OF lt get rem pop]) auto
      moreover have "take k ?d' = take k d" using True by simp
      moreover have "drop k ?d' = drop (Suc k) d" using True by simp
      ultimately show ?thesis
        using lt get rem pop dr by (subst rzr_loop.simps) auto
    next
      case keep: False
      have "rzr_loop d (i + 1) n =
          Inr (take (Suc k) d @ filter (\<lambda>it. params it \<noteq> [Some 0] \<and> params it \<noteq> [Some (2 * PI)]) (drop (Suc k) d))"
        using True 1(4,5) by (intro 1(2)[OF lt get keep]) auto
      then show ?thesis
        using lt get keep dr True by (subst rzr_loop.simps) (auto simp: take_Suc_conv_app_nth)
    qed
  qed
qed

lemma rzr_filter:
  "removeZeroRotations c =
     Inr (c\<lparr>data := filter (\<lambda>it. params it \<noteq> [Some 0] \<and> params it \<noteq> [Some (2 * PI)]) (data c)\<rparr>)"
  using rzr_loop_filter [of 0 "data c" 0 "int (length (data c))"]
  by (simp add: removeZeroRotations_def)

text \<open>
  C5 (amended). Identity-Rotation Elimination never raises and returns the circuit whose
  sequence is the input sequence without the instructions whose parameter list is
  exactly \<open>[0.0]\<close> or exactly \<open>[2 * PI]\<close> (the double): every such instruction is
  removed, of whatever gate kind; all other instructions stay, unchanged and in their
  order; and nothing but the sequence changes (qubit and classical-bit counts are those
  of the input). No element escapes the scan: the result is the filter of the whole
  input.
\<close>

theorem removeZeroRotations_removes_identities:
  "removeZeroRotations c =
     Inr (c\<lparr>data := filter (\<lambda>it. params it \<noteq> [Some 0] \<and> params it \<noteq> [Some (2 * PI)]) (data c)\<rparr>)"
  by (rule rzr_filter)

theorem removeZeroRotations_removes_identities_witness:
  "removeZeroRotations (circ 2 [rx 0 0, cz 0 1, rz (2 * PI) 1, rx 1 0, rz 0 0, rz 2 1]) =
     Inr (circ 2 [cz 0 1, rx 1 0, rz 2 1])"
  using removeZeroRotations_removes_identities
    [of "circ 2 [rx 0 0, cz 0 1, rz (2 * PI) 1, rx 1 0, rz 0 0, rz 2 1]"]
  by (simp add: circ_def rx_def rz_def cz_def PI_def)

text \<open>
  C5 as stated, "removes every rotation whose angle is 0 or a full turn and leaves all
  other instructions", fails for an instruction that is no rotation of the basis and
  has such a parameter list. A controlled rotation \<^verbatim>\<open>crz\<close> by \<open>0.0\<close> on the
  qubits \<open>0\<close>, \<open>1\<close> is not left in the sequence, nor is one by \<open>2 * PI\<close>, which is not
  an identity gate.
\<close>

theorem removeZeroRotations_removes_controlled_rotation:
  "removeZeroRotations
       (circ 2 [\<lparr>name = ''crz'', params = [Some 0], qargs = [0, 1]\<rparr>, cz 0 1,
                \<lparr>name = ''crz'', params = [Some (2 * PI)], qargs = [0, 1]\<rparr>]) =
     Inr (circ 2 [cz 0 1])"
  by (simp add: removeZeroRotations_def rzr_loop.simps py_get_def py_pop_def py_index_def
        Let_def circ_def cz_def)

lemma count_list_filter:
  "count_list (filter P xs) x = (if P x then count_list xs x else 0)"
  by (induction xs) auto

text \<open>
  C10. Identity-Rotation Elimination looks at nothing but the parameter list of an
  instruction: an instruction of the input is in the output exactly when its parameter
  list is neither \<open>[0.0]\<close> nor \<open>[2 * PI]\<close>, whatever its gate name and qubits; and every
  instruction with an empty parameter list (an entangling gate carries no angle) occurs
  in the output as often as in the input.
\<close>

theorem removeZeroRotations_decides_by_params:
  "\<exists>d'. removeZeroRotations c = Inr (c\<lparr>data := d'\<rparr>) \<and>
     (\<forall>it \<in> set (data c). (it \<in> set d') = (params it \<noteq> [Some 0] \<and> params it \<noteq> [Some (2 * PI)])) \<and>
     (\<forall>it. params it = [] \<longrightarrow> count_list d' it = count_list (data c) it)"
proof -
  let ?d' = "filter (\<lambda>it. params it \<noteq> [Some 0] \<and> params it \<noteq> [Some (2 * PI)]) (data c)"
  have "removeZeroRotations c = Inr (c\<lparr>data := ?d'\<rparr>)"
    by (rule rzr_filter)
  moreover have "\<forall>it \<in> set (data c). (it \<in> set ?d') = (params it \<noteq> [Some 0] \<and> params it \<noteq> [Some (2 * PI)])"
    by simp
  moreover have "\<forall>it. params it = [] \<longrightarrow> count_list ?d' it = count_list (data c) it"
    by (simp add: count_list_filter)
  ultimately show ?thesis by blast
qed

theorem removeZeroRotations_decides_by_params_witness:
  "\<lparr>name = ''u1'', params = [Some 0], qargs = [0]\<rparr>
      \<in> set (data (circ 2 [\<lparr>name = ''u1'', params = [Some 0], qargs = [0]\<rparr>, cz 0 1])) \<and>
   params (cz 0 1) = [] \<and>
   (\<exists>d'. removeZeroRotations (circ 2 [\<lparr>name = ''u1'', params = [Some 0], qargs = [0]\<rparr>, cz 0 1]) =
            Inr (circ 2 d') \<and>
          \<lparr>name = ''u1'', params = [Some 0], qargs = [0]\<rparr> \<notin> set d' \<and>
          count_list d' (cz 0 1) = 1)"
proof -
  let ?g = "\<lparr>name = ''u1'', params = [Some 0], qargs = [0]\<rparr>"
  let ?c = "circ 2 [?g, cz 0 1]"
  from removeZeroRotations_decides_by_params [of ?c] obtain d' where
    r: "removeZeroRotations ?c = Inr (?c\<lparr>data := d'\<rparr>)" and
    m: "\<forall>it \<in> set (data ?c). (it \<in> set d') = (params it \<noteq> [Some 0] \<and> params it \<noteq> [Some (2 * PI)])" and
    k: "\<forall>it. params it = [] \<longrightarrow> count_list d' it = count_list (data ?c) it"
    by blast
  have g_in: "?g \<in> set (data ?c)" by (simp add: circ_def)
  from m g_in have "?g \<notin> set d'" by simp
  moreover from k have "count_list d' (cz 0 1) = 1" by (simp add: circ_def cz_def)
  moreover from r have "removeZeroRotations ?c = Inr (circ 2 d')" by (simp add: circ_def)
  ultimately show ?thesis using g_in by (auto simp: cz_def)
qed

section \<open>No pass lengthens the sequence\<close>

lemma rdc_step_length:
  "rdc_step d ws i n = Inr (d', ws', i', n') \<Longrightarrow> length d' \<le> length d"
  by (auto simp: rdc_step_def rdc_cancel_def rdc_push_cz_def
           split: sum.splits if_splits dest!: py_pop_length)

lemma rdc_loop_length:
  "rdc_loop d ws i n = Inr (d', ws') \<Longrightarrow> length d' \<le> length d"
proof (induction d ws i n rule: rdc_loop.induct)
  case (1 d ws i n)
  show ?case
  proof (cases "i < n")
    case False
    with 1(2) show ?thesis by (simp add: rdc_loop.simps)
  next
    case True
    from 1(2) True obtain d1 ws1 i1 n1 where
      st: "rdc_step d ws i n = Inr (d1, ws1, i1, n1)" and
      lp: "rdc_loop d1 ws1 i1 n1 = Inr (d', ws')"
      by (subst (asm) rdc_loop.simps) (auto split: sum.splits)
    have "length d' \<le> length d1"
      by (rule 1(1)[OF True st refl refl refl lp])
    with rdc_step_length[OF st] show ?thesis by simp
  qed
qed

lemma set_angle_length: "set_angle d k s = Inr d' \<Longrightarrow> length d' = length d"
  by (auto simp: set_angle_def split: sum.splits dest: py_set_length)

lemma cr_step_length:
  "cr_step d w pops i n = Inr (d', w', pops', i', n') \<Longrightarrow> length d' = length d"
  by (auto simp: cr_step_def cr_fuse_def split: sum.splits if_splits dest: set_angle_length)

lemma cr_loop_length:
  "cr_loop d w pops i n = Inr (d', w', pops') \<Longrightarrow> length d' = length d"
proof (induction d w pops i n rule: cr_loop.induct)
  case (1 d w pops i n)
  show ?case
  proof (cases "i < n - 1")
    case False
    with 1(2) show ?thesis by (simp add: cr_loop.simps)
  next
    case True
    from 1(2) True obtain d1 w1 p1 i1 n1 where
      st: "cr_step d w pops i n = Inr (d1, w1, p1, i1, n1)" and
      lp: "cr_loop d1 w1 p1 i1 n1 = Inr (d', w', pops')"
      by (subst (asm) cr_loop.simps) (auto split: sum.splits)
    have "length d' = length d1"
      by (rule 1(1)[OF True st refl refl refl refl lp])
    with cr_step_length[OF st] show ?thesis by simp
  qed
qed

lemma cr_wires_length:
  "cr_wires d ws pops = Inr (d', pops') \<Longrightarrow> length d' = length d"
proof (induction ws arbitrary: d pops)
  case Nil
  then show ?case by simp
next
  case (Cons w ws)
  then show ?case
    by (auto split: sum.splits dest: cr_loop_length)
qed

lemma pop_all_length: "pop_all d ks = Inr d' \<Longrightarrow> length d' \<le> length d"
proof (induction ks arbitrary: d)
  case Nil
  then show ?case by simp
next
  case (Cons k ks)
  from Cons.prems obtain d1 where p: "py_pop d k = Inr d1" and r: "pop_all d1 ks = Inr d'"
    by (auto split: sum.splits)
  from Cons.IH[OF r] py_pop_length[OF p] show ?case by simp
qed

lemma removeDoubleCZ_length:
  "removeDoubleCZ c = Inr (c', ws) \<Longrightarrow> length (data c') \<le> length (data c)"
  by (auto simp: removeDoubleCZ_def split: sum.splits dest: rdc_loop_length)

lemma combineRotations_length:
  "combineRotations c ws = Inr c' \<Longrightarrow> length (data c') \<le> length (data c)"
  by (auto simp: combineRotations_def split: sum.splits dest!: cr_wires_length pop_all_length)

section \<open>Evaluating the passes on a given circuit\<close>

lemma replicate_Cons_numeral: "replicate (numeral v) x = x # replicate (numeral v - 1) x"
  by (simp add: numeral_eq_Suc)

lemma list_update_Cons_numeral: "(x # xs)[numeral v := y] = x # xs[numeral v - 1 := y]"
  by (simp add: numeral_eq_Suc)

lemmas py_defs = py_index_def py_get_def py_pop_def py_set_def Let_def
  replicate_Cons_numeral list_update_Cons_numeral
lemmas tag_defs = py_str_def str_nat.simps digit_char_def py_int_def py_strip_def py_isspace_def
  nat_literal_def digit_val_def
lemmas rdc_defs = removeDoubleCZ_def rdc_loop.simps rdc_step_def rdc_cancel_def rdc_push_cz_def
  wire_top_def wire_append_def wire_pop_def
lemmas cr_defs = combineRotations_def cr_loop.simps cr_step_def cr_fuse_def set_angle_def
lemmas instr_defs = cz_def rx_def rz_def circ_def
lemmas fl_defs = double_add_def round_double_def binary_exponent_def pow2_def round_half_even_def
  bit_length.simps rounds_to_full_turn_def py_round2_def PI_def

lemma round2_full_turn: "py_round2 (2 * PI) = 628"
  by (simp add: py_round2_def round_half_even_def PI_def)

lemma simplify_three_rx: "simplify (circ 1 [rx 1 0, rx 2 0, rx 3 0]) = Inr (circ 1 [rx 6 0])"
  by (simp add: simplify_def rzr_filter py_defs tag_defs rdc_defs cr_defs instr_defs
        fl_defs)

text \<open>
  C9. Whenever the optimizer driver returns a sequence, that sequence is no longer than
  the input sequence. (The driver can also raise instead of returning; then there is no
  returned sequence.)
\<close>

theorem simplify_length:
  "simplify c = Inr c' \<Longrightarrow> length (data c') \<le> length (data c)"
proof -
  assume s: "simplify c = Inr c'"
  let ?c1 = "c\<lparr>data := filter (\<lambda>it. params it \<noteq> [Some 0] \<and> params it \<noteq> [Some (2 * PI)]) (data c)\<rparr>"
  from s obtain c2 ws where
    a: "removeDoubleCZ ?c1 = Inr (c2, ws)" and b: "combineRotations c2 ws = Inr c'"
    by (auto simp: simplify_def rzr_filter split: sum.splits)
  have "length (data ?c1) \<le> length (data c)" by simp
  with removeDoubleCZ_length[OF a] combineRotations_length[OF b] show ?thesis by linarith
qed

theorem simplify_length_witness:
  "simplify (circ 1 [rx 1 0, rx 2 0, rx 3 0]) = Inr (circ 1 [rx 6 0]) \<and>
   length (data (circ 1 [rx 6 0])) \<le> length (data (circ 1 [rx 1 0, rx 2 0, rx 3 0]))"
  using simplify_length [OF simplify_three_rx] simplify_three_rx by simp

section \<open>The wire stacks at qubits in range\<close>

lemma wire_append_ok:
  "q < length ws \<Longrightarrow> wire_append ws q t = Inr (ws[q := ws ! q @ [t]])"
  by (simp add: wire_append_def py_get_nat py_set_nat)

lemma py_get_last: "w \<noteq> [] \<Longrightarrow> py_get w (- 1) = Inr (last w)"
  by (cases w rule: rev_cases) (auto simp: py_get_def py_index_def nth_append)

lemma py_pop_last: "w \<noteq> [] \<Longrightarrow> py_pop w (- 1) = Inr (butlast w)"
  by (cases w rule: rev_cases) (auto simp: py_pop_def py_index_def)

lemma wire_top_ok:
  "q < length ws \<Longrightarrow> ws ! q \<noteq> [] \<Longrightarrow> wire_top ws q = Inr (last (ws ! q))"
  by (simp add: wire_top_def py_get_nat py_get_last)

lemma wire_pop_ok:
  "q < length ws \<Longrightarrow> ws ! q \<noteq> [] \<Longrightarrow> wire_pop ws q = Inr (ws[q := butlast (ws ! q)])"
  by (simp add: wire_pop_def py_get_nat py_set_nat py_pop_last)

lemmas wire_ok = wire_append_ok wire_top_ok wire_pop_ok nth_list_update

text \<open>A wire that holds at most its initial entry gives the fusion loop nothing to do.\<close>

lemma cr_wires_short:
  "\<forall>w \<in> set ws. length w \<le> 1 \<Longrightarrow> cr_wires d ws pops = Inr (d, pops)"
  by (induction ws) (auto simp: cr_loop.simps)

lemma cr_wires_short_append:
  "\<forall>w \<in> set ws1. length w \<le> 1 \<Longrightarrow> cr_wires d (ws1 @ ws2) pops = cr_wires d ws2 pops"
  by (induction ws1) (auto simp: cr_loop.simps)

lemma cr_wires_single:
  assumes "q < nq"
  shows "cr_wires d ((replicate nq [[]])[q := w]) pops =
     (case cr_loop d w pops 0 (int (length w)) of
        Inl e \<Rightarrow> Inl e
      | Inr (d', w', pops') \<Rightarrow> Inr (d', pops'))"
proof -
  have split: "(replicate nq [[]])[q := w] = replicate q [[]] @ w # replicate (nq - Suc q) [[]]"
    using assms by (simp add: list_eq_iff_nth_eq nth_list_update nth_append nth_Cons')
  show ?thesis
    unfolding split
    by (subst cr_wires_short_append) (auto simp: cr_wires_short split: sum.splits)
qed

section \<open>Cancellation of an adjacent pair\<close>

lemma rdc_cz_pair:
  assumes "a < nq" "b < nq"
  shows "rdc_loop [cz a b, cz a b] (replicate nq [[]]) 0 2 = Inr ([], replicate nq [[]])"
proof -
  let ?ws0 = "replicate nq [[]]"
  let ?ws1 = "?ws0[a := ?ws0 ! a @ [''cz0'']]"
  let ?ws2 = "?ws1[b := ?ws1 ! b @ [''cz0'']]"
  have s1: "rdc_step [cz a b, cz a b] ?ws0 0 2 = Inr ([cz a b, cz a b], ?ws2, 1, 2)"
    using assms
    by (simp add: rdc_step_def rdc_push_cz_def cz_def py_defs tag_defs wire_ok)
  have top_a: "last (?ws2 ! a) = ''cz0''" and top_b: "last (?ws2 ! b) = ''cz0''"
    using assms by (auto simp: nth_list_update)
  have ne: "?ws2 ! a \<noteq> []" "?ws2 ! b \<noteq> []"
    using assms by (auto simp: nth_list_update)
  have fin: "(?ws2[a := butlast (?ws2 ! a)])[b := butlast ((?ws2[a := butlast (?ws2 ! a)]) ! b)] = ?ws0"
    using assms by (auto simp: list_eq_iff_nth_eq nth_list_update)
  have ne2: "(?ws2[a := butlast (?ws2 ! a)]) ! b \<noteq> []"
    using assms by (auto simp: nth_list_update)
  have s2: "rdc_step [cz a b, cz a b] ?ws2 1 2 = Inr ([], ?ws0, 0, 0)"
    unfolding rdc_step_def rdc_cancel_def
    using assms ne ne2 top_a top_b fin
    by (simp add: cz_def py_defs tag_defs wire_top_ok wire_pop_ok del: replicate.simps)
  show ?thesis
    by (subst rdc_loop.simps, simp add: s1, subst rdc_loop.simps, simp add: s2,
        subst rdc_loop.simps, simp)
qed

text \<open>
  C8. For a sequence that consists of exactly two entangling instructions on the same
  qubit pair \<open>(a, b)\<close> (both qubits of the circuit), the optimizer driver returns the
  circuit with the empty sequence.
\<close>

theorem simplify_cancels_cz_pair:
  assumes "a < nq" "b < nq"
  shows "simplify \<lparr>num_qubits = nq, num_clbits = nc, data = [cz a b, cz a b]\<rparr> =
         Inr \<lparr>num_qubits = nq, num_clbits = nc, data = []\<rparr>"
proof -
  let ?c = "\<lparr>num_qubits = nq, num_clbits = nc, data = [cz a b, cz a b]\<rparr>"
  let ?e = "\<lparr>num_qubits = nq, num_clbits = nc, data = []\<rparr>"
  have rz: "removeZeroRotations ?c = Inr ?c"
    by (simp add: rzr_filter cz_def)
  have rd: "removeDoubleCZ ?c = Inr (?e, replicate nq [[]])"
    using rdc_cz_pair[OF assms] by (simp add: removeDoubleCZ_def)
  have cr: "combineRotations ?e (replicate nq [[]]) = Inr ?e"
    by (simp add: combineRotations_def cr_wires_short)
  show ?thesis
    by (simp add: simplify_def rz rd cr)
qed

theorem simplify_cancels_cz_pair_witness:
  "(3::nat) < 5 \<and> (4::nat) < 5 \<and>
   simplify \<lparr>num_qubits = 5, num_clbits = 5, data = [cz 3 4, cz 3 4]\<rparr> =
     Inr \<lparr>num_qubits = 5, num_clbits = 5, data = []\<rparr>"
  using simplify_cancels_cz_pair [of 3 5 4 5] by simp

section \<open>A rotation between two entangling gates\<close>

lemma rdc_cz_rz_cz:
  assumes "x < nq" "y < nq" "q = x \<or> q = y"
  shows "\<exists>ws. rdc_loop [cz x y, rz t q, cz x y] (replicate nq [[]]) 0 3 =
           Inr ([cz x y, rz t q, cz x y], ws)"
proof (cases "x = y")
  case True
  with assms show ?thesis
    by (auto simp add: rdc_loop.simps rdc_step_def rdc_push_cz_def rdc_cancel_def cz_def rz_def
          py_defs tag_defs wire_ok)
next
  case False
  with assms show ?thesis
    by (auto simp add: rdc_loop.simps rdc_step_def rdc_push_cz_def rdc_cancel_def cz_def rz_def
          py_defs tag_defs wire_ok)
qed

text \<open>
  The Adjacent-Cancellation pass alone keeps the two entangling instructions, whatever
  the angle of the rotation between them.
\<close>

lemma removeDoubleCZ_keeps_separated_pair:
  assumes "x < nq" "y < nq" "q = x \<or> q = y"
  shows "\<exists>ws. removeDoubleCZ \<lparr>num_qubits = nq, num_clbits = nc, data = [cz x y, rz t q, cz x y]\<rparr> =
           Inr (\<lparr>num_qubits = nq, num_clbits = nc, data = [cz x y, rz t q, cz x y]\<rparr>, ws)"
  using rdc_cz_rz_cz[OF assms, of t] by (auto simp: removeDoubleCZ_def)

text \<open>
  C7. The claim: on \<open>[ENTANGLE(x,y), ROTATE_Z(t) on x, ENTANGLE(x,y)]\<close> the optimizer
  does not cancel the two entangling instructions and its output still has length 3.
  On \<open>[cz(0,1), rz(1.0) on 0, cz(0,1)]\<close> the optimizer driver returns no sequence at
  all. The Adjacent-Cancellation pass keeps the three instructions and hands on the
  wire history in which wire 1 holds \<open>cz0\<close>, \<open>cz2\<close> next to each other; the fusion
  pass takes these two entries for a fusible pair, reads the first parameter of an
  entangling gate, which has none, and raises.
\<close>

theorem simplify_raises_on_separated_pair:
  "removeDoubleCZ (circ 2 [cz 0 1, rz 1 0, cz 0 1]) =
     Inr (circ 2 [cz 0 1, rz 1 0, cz 0 1],
          [['''', ''cz0'', ''rz1'', ''cz2''], ['''', ''cz0'', ''cz2'']]) \<and>
   combineRotations (circ 2 [cz 0 1, rz 1 0, cz 0 1])
       [['''', ''cz0'', ''rz1'', ''cz2''], ['''', ''cz0'', ''cz2'']] = Inl IndexError \<and>
   simplify (circ 2 [cz 0 1, rz 1 0, cz 0 1]) = Inl IndexError"
  by (simp add: simplify_def rzr_filter py_defs tag_defs rdc_defs cr_defs instr_defs PI_def)

text \<open>
  The same happens for every angle that Identity-Rotation Elimination keeps. For the
  two angles it removes, \<open>0\<close> and \<open>2 * PI\<close>, the entangling instructions become
  adjacent before the cancellation pass and the driver returns the empty sequence.
\<close>

lemma simplify_raises_on_separated_pair_any_angle:
  assumes "t \<noteq> 0" "t \<noteq> 2 * PI"
  shows "simplify (circ 2 [cz 0 1, rz t 0, cz 0 1]) = Inl IndexError"
  using assms
  by (simp add: simplify_def rzr_filter py_defs tag_defs rdc_defs cr_defs instr_defs)

lemma simplify_cancels_around_zero_rotation:
  "simplify (circ 2 [cz 0 1, rz 0 0, cz 0 1]) = Inr (circ 2 []) \<and>
   simplify (circ 2 [cz 0 1, rz (2 * PI) 0, cz 0 1]) = Inr (circ 2 [])"
  by (simp add: simplify_def rzr_filter py_defs tag_defs rdc_defs cr_defs instr_defs)

section \<open>Fusion of three rotations on a wire\<close>

text \<open>
  What the driver does on a sequence of exactly three rotations of one kind on one
  qubit, as long as neither float sum rounds to the rounded full turn: it returns one
  rotation whose angle is the float sum \<open>(t1 + t2) + t3\<close>, as stored (not reduced
  modulo a full turn).
\<close>

lemma rdc_three_rot:
  assumes "q < nq" "k = ''rx'' \<or> k = ''rz''"
  shows "rdc_loop [rot k t1 q, rot k t2 q, rot k t3 q] (replicate nq [[]]) 0 3 =
           Inr ([rot k t1 q, rot k t2 q, rot k t3 q],
                (replicate nq [[]])[q := [[], k @ ''0'', k @ ''1'', k @ ''2'']])"
  using assms
  by (auto simp add: rdc_loop.simps rdc_step_def rot_def py_defs tag_defs wire_ok)

lemma cr_three_rot:
  assumes "k = ''rx'' \<or> k = ''rz''"
    and "\<not> rounds_to_full_turn (double_add (Some t1) (Some t2))"
    and "\<not> rounds_to_full_turn (double_add (double_add (Some t1) (Some t2)) (Some t3))"
  shows "\<exists>w'. cr_loop [rot k t1 q, rot k t2 q, rot k t3 q] [[], k @ ''0'', k @ ''1'', k @ ''2''] [] 0 4 =
           Inr ([rot k t1 q,
                 \<lparr>name = k, params = [double_add (Some t1) (Some t2)], qargs = [q]\<rparr>,
                 \<lparr>name = k, params = [double_add (double_add (Some t1) (Some t2)) (Some t3)],
                  qargs = [q]\<rparr>], w', [0, 1])"
  using assms
  by (auto simp add: cr_loop.simps cr_step_def cr_fuse_def set_angle_def rot_def py_defs tag_defs)

lemma simplify_three_rot:
  assumes "q < nq" "k = ''rx'' \<or> k = ''rz''"
    and "t1 \<noteq> 0" "t1 \<noteq> 2 * PI" "t2 \<noteq> 0" "t2 \<noteq> 2 * PI" "t3 \<noteq> 0" "t3 \<noteq> 2 * PI"
    and "\<not> rounds_to_full_turn (double_add (Some t1) (Some t2))"
    and "\<not> rounds_to_full_turn (double_add (double_add (Some t1) (Some t2)) (Some t3))"
  shows "simplify \<lparr>num_qubits = nq, num_clbits = nc, data = [rot k t1 q, rot k t2 q, rot k t3 q]\<rparr> =
         Inr \<lparr>num_qubits = nq, num_clbits = nc,
              data = [\<lparr>name = k,
                       params = [double_add (double_add (Some t1) (Some t2)) (Some t3)],
                       qargs = [q]\<rparr>]\<rparr>"
proof -
  let ?d = "[rot k t1 q, rot k t2 q, rot k t3 q]"
  let ?c = "\<lparr>num_qubits = nq, num_clbits = nc, data = ?d\<rparr>"
  let ?ws = "(replicate nq [[]])[q := [[], k @ ''0'', k @ ''1'', k @ ''2'']]"
  let ?s12 = "double_add (Some t1) (Some t2)"
  let ?s = "double_add ?s12 (Some t3)"
  let ?d' = "[rot k t1 q, \<lparr>name = k, params = [?s12], qargs = [q]\<rparr>,
              \<lparr>name = k, params = [?s], qargs = [q]\<rparr>]"
  have rz: "removeZeroRotations ?c = Inr ?c"
    using assms(3-8) by (simp add: rzr_filter rot_def)
  have rd: "removeDoubleCZ ?c = Inr (?c, ?ws)"
    using rdc_three_rot[OF assms(1,2), of t1 t2 t3] by (simp add: removeDoubleCZ_def)
  from cr_three_rot[OF assms(2,9,10), of q] obtain w' where
    lp: "cr_loop ?d [[], k @ ''0'', k @ ''1'', k @ ''2''] [] 0 4 = Inr (?d', w', [0, 1])"
    by blast
  have cw: "cr_wires ?d ?ws [] = Inr (?d', [0, 1])"
    using lp by (simp add: cr_wires_single[OF assms(1)])
  have cr: "combineRotations ?c ?ws =
      Inr \<lparr>num_qubits = nq, num_clbits = nc, data = [\<lparr>name = k, params = [?s], qargs = [q]\<rparr>]\<rparr>"
    by (simp add: combineRotations_def cw py_defs)
  show ?thesis
    by (simp add: simplify_def rz rd cr)
qed

text \<open>
  C4. The claim: for a wire carrying three consecutive rotations of the same kind, the
  optimized sequence holds exactly one rotation on that wire, with the sum of the
  angles, and holds no rotation on that wire if the sum rounds to \<open>0\<close> or to a full turn
  at two decimals. On \<open>[rx(2.0), rx(2.0), rx(2.28125)]\<close> on one qubit the float sums are
  \<open>4.0\<close> and \<open>6.28125\<close>, and \<open>6.28125\<close> rounds to \<open>6.28\<close> as the full turn does. The
  optimizer driver returns no sequence: after the second fusion the loop deletes the
  last two entries of the wire and steps its index back by three in all, to \<open>-1\<close>; it
  then compares the last entry of the wire with its first (both are the initial empty
  tag), takes them for a fusible pair and parses the index of an empty tag, which
  raises.
\<close>

theorem simplify_raises_on_full_turn:
  "double_add (Some 2) (Some 2) = Some 4 \<and>
   double_add (Some 4) (Some 2.28125) = Some 6.28125 \<and>
   rounds_to_full_turn (Some 6.28125) \<and>
   cr_loop [rx 2 0, rx 2 0, rx 2.28125 0] ['''', ''rx0'', ''rx1'', ''rx2''] [] 0 4 =
     Inl ValueError \<and>
   simplify (circ 1 [rx 2 0, rx 2 0, rx 2.28125 0]) = Inl ValueError"
  by (simp add: simplify_def rzr_filter py_defs tag_defs rdc_defs cr_defs instr_defs fl_defs)

text \<open>
  The same failure with two rotations, and with three rotations whose exact sum stays
  below \<open>6.275\<close> while the float sum does not: the angles are the floats \<open>1.0\<close>,
  \<open>5.2749999999999995\<close> and \<open>4.996003610813204e-16\<close>; the first float sum is
  \<open>6.2749999999999995\<close>, which rounds to \<open>6.27\<close>, and adding the third angle rounds up
  to the next float, \<open>6.275000000000000355\<close>, which rounds to \<open>6.28\<close>.
\<close>

lemma simplify_raises_on_two_half_turns:
  "simplify (circ 1 [rx 3.125 0, rx 3.15625 0]) = Inl ValueError"
  by (simp add: simplify_def rzr_filter py_defs tag_defs rdc_defs cr_defs instr_defs fl_defs)

lemma double_add_rounds_up:
  "double_add (Some 1) (Some (5939122008594841 / 2 ^ 50)) = Some (7065021915437465 / 2 ^ 50) \<and>
   \<not> rounds_to_full_turn (Some (7065021915437465 / 2 ^ 50)) \<and>
   double_add (Some (7065021915437465 / 2 ^ 50)) (Some (9 / 2 ^ 54)) =
     Some (3532510957718733 / 2 ^ 49) \<and>
   rounds_to_full_turn (Some (3532510957718733 / 2 ^ 49)) \<and>
   py_round2 (1 + 5939122008594841 / 2 ^ 50 + 9 / 2 ^ 54) = 627"
  by (simp add: fl_defs)

lemma simplify_raises_through_float_rounding:
  "simplify (circ 1 [rx 1 0, rx (5939122008594841 / 2 ^ 50) 0, rx (9 / 2 ^ 54) 0]) =
     Inl ValueError"
  by (simp add: simplify_def rzr_filter py_defs tag_defs rdc_defs cr_defs instr_defs fl_defs)

text \<open>
  Where the sum rounds to \<open>0\<close> the rotation is kept: the fusion pass tests the fused
  angle against the full turn only.
\<close>

lemma simplify_keeps_zero_sum_rotation:
  "double_add (double_add (Some 1) (Some 1)) (Some (- 2)) = Some 0 \<and>
   simplify (circ 1 [rx 1 0, rx 1 0, rx (- 2) 0]) = Inr (circ 1 [rx 0 0])"
  by (simp add: simplify_def rzr_filter py_defs tag_defs rdc_defs cr_defs instr_defs fl_defs)

text \<open>
  Where a cancelled pair of entangling instructions on other qubits precedes the second
  rotation, the recorded indices of the wire are stale: the three rotations by \<open>1\<close>,
  \<open>2\<close>, \<open>3\<close> on qubit 0 come out as the single rotation by \<open>1\<close>.
\<close>

lemma simplify_misfuses_after_cancellation:
  "simplify (circ 4 [cz 2 3, rx 1 0, cz 2 3, rx 2 0, rx 3 0]) = Inr (circ 4 [rx 1 0])"
  by (simp add: simplify_def rzr_filter py_defs tag_defs rdc_defs cr_defs instr_defs fl_defs)

section \<open>Where the code departs from its description\<close>

text \<open>
  C1. The claim: an entangling instruction on \<open>(a, b)\<close> is cancelled only against the
  one earlier entangling instruction that both wire tops record. The code tests only
  that both tops start with \<^verbatim>\<open>cz\<close>. In \<open>[cz(0,1), cz(1,2), cz(0,2)]\<close> the scan reaches
  \<open>cz(0,2)\<close> with \<open>cz0\<close> on top of wire 0 and \<open>cz1\<close> on top of wire 2, two different
  instructions; it deletes \<open>cz(0,2)\<close> and \<open>cz(0,1)\<close> all the same and returns
  \<open>[cz(1,2)]\<close>.
\<close>

theorem removeDoubleCZ_cancels_distinct_instances:
  "wire_top [['''', ''cz0''], ['''', ''cz0'', ''cz1''], ['''', ''cz1'']] 0 = Inr ''cz0'' \<and>
   wire_top [['''', ''cz0''], ['''', ''cz0'', ''cz1''], ['''', ''cz1'']] 2 = Inr ''cz1'' \<and>
   rdc_step [cz 0 1, cz 1 2, cz 0 2]
       [['''', ''cz0''], ['''', ''cz0'', ''cz1''], ['''', ''cz1'']] 2 3 =
     Inr ([cz 1 2], [[''''], ['''', ''cz0'', ''cz1''], ['''']], 1, 1) \<and>
   removeDoubleCZ (circ 3 [cz 0 1, cz 1 2, cz 0 2]) =
     Inr (circ 3 [cz 1 2], [[''''], ['''', ''cz0'', ''cz1''], ['''']])"
  by (simp add: py_defs tag_defs rdc_defs instr_defs)

text \<open>
  C2. The claim: after the pass, every index in a wire entry is the position of its
  instruction in the returned sequence. In \<open>[cz(0,1), rx(1) on 2, cz(0,1)]\<close> the
  rotation is recorded as \<open>rx1\<close>; the later cancellation deletes the instruction before
  it, and the pass returns the one-instruction sequence \<open>[rx(1)]\<close> together with the
  entry \<open>rx1\<close>, whose index 1 is not a position of that sequence.
\<close>

theorem removeDoubleCZ_leaves_stale_index:
  "removeDoubleCZ (circ 3 [cz 0 1, rx 1 2, cz 0 1]) =
     Inr (circ 3 [rx 1 2], [[''''], [''''], ['''', ''rx1'']]) \<and>
   py_int (drop 2 ''rx1'') = Inr 1 \<and>
   py_get (data (circ 3 [rx 1 2])) 1 = Inl IndexError"
  by (simp add: py_defs tag_defs rdc_defs instr_defs)

text \<open>
  The fusion pass trusts these indices. With a second rotation on the wire it reads both
  entries as index 1, adds the second angle to itself and deletes that instruction: of
  the two rotations by 1 on qubit 2 a single rotation by 1 is left.
\<close>

lemma simplify_loses_rotation:
  "simplify (circ 3 [cz 0 1, rx 1 2, cz 0 1, rx 1 2]) = Inr (circ 3 [rx 1 2])"
  by (simp add: simplify_def rzr_filter py_defs tag_defs rdc_defs cr_defs instr_defs
        fl_defs)

text \<open>
  C3. The claim: only two rotations of the same kind are fused, two entangling entries
  never. The code fuses whenever the two tags agree on their first two characters. In
  \<open>[cz(0,1), cz(0,2)]\<close> wire 0 holds \<open>cz0\<close>, \<open>cz1\<close>; the pass takes them for a
  fusible pair, reads the first parameter of an entangling gate, which has none, and
  raises.
\<close>

theorem combineRotations_raises_on_cz_entries:
  "removeDoubleCZ (circ 3 [cz 0 1, cz 0 2]) =
     Inr (circ 3 [cz 0 1, cz 0 2], [['''', ''cz0'', ''cz1''], ['''', ''cz0''], ['''', ''cz1'']]) \<and>
   take 2 ''cz0'' = take 2 ''cz1'' \<and>
   cr_step [cz 0 1, cz 0 2] ['''', ''cz0'', ''cz1''] [] 1 3 = Inl IndexError \<and>
   combineRotations (circ 3 [cz 0 1, cz 0 2])
       [['''', ''cz0'', ''cz1''], ['''', ''cz0''], ['''', ''cz1'']] = Inl IndexError \<and>
   simplify (circ 3 [cz 0 1, cz 0 2]) = Inl IndexError"
  by (simp add: simplify_def rzr_filter py_defs tag_defs rdc_defs cr_defs instr_defs)

text \<open>
  The same test fuses any two neighbours whose two-letter gate names agree, such as two
  \<^verbatim>\<open>ry\<close> rotations.
\<close>

lemma simplify_fuses_ry:
  "simplify (circ 1 [rot ''ry'' 1 0, rot ''ry'' 1 0]) = Inr (circ 1 [rot ''ry'' 2 0])"
  by (simp add: simplify_def rzr_filter py_defs tag_defs rdc_defs cr_defs instr_defs rot_def
        fl_defs)

text \<open>
  C6. The claim: a gate on neither 1 nor 2 qubits is rejected with an error. The
  \<^verbatim>\<open>if\<close>/\<^verbatim>\<open>elif\<close> of \<^verbatim>\<open>compiler\<close> has no \<^verbatim>\<open>else\<close>: such a gate appends nothing
  and raises nothing, whatever the decomposers are. A circuit holding one three-qubit
  gate compiles to the empty circuit.
\<close>

theorem compiler_drops_three_qubit_gate:
  "lower_item d1 d2 \<lparr>name = ''ccx'', params = [], qargs = [0, 1, 2]\<rparr> = Inr [] \<and>
   compiler d1 d2
       \<lparr>num_qubits = 3, num_clbits = 0,
        data = [\<lparr>name = ''ccx'', params = [], qargs = [0, 1, 2]\<rparr>]\<rparr> =
     Inr \<lparr>num_qubits = 3, num_clbits = 0, data = []\<rparr>"
  by (simp add: compiler_def lower_item_def)

lemma lower_item_other_arity:
  "length (qargs item) \<noteq> 1 \<Longrightarrow> length (qargs item) \<noteq> 2 \<Longrightarrow> lower_item d1 d2 item = Inr []"
  by (simp add: lower_item_def)

end
